theory Spec2Isabelle
  imports Complex_Main
begin

section \<open>JavaScript values\<close>

text \<open>
  The configuration block, the flags and the settings object of
  \<^verbatim>\<open>src/utils/detect-server.js\<close> are untyped JavaScript objects, and the code decides
  by truthiness, \<^verbatim>\<open>typeof\<close> and \<^verbatim>\<open>===\<close>. Values are therefore modelled dynamically.
  Finite numbers are rationals (every finite double is one; \<^verbatim>\<open>3000.5\<close> is \<open>6001 / 2\<close>),
  \<^verbatim>\<open>NaN\<close> is a value of its own, the infinities are left out. A plain object is an
  association list of its properties, an array a list.
\<close>

datatype jsval =
    Undefined
  | Null
  | Bool bool
  | Num rat
  | NaN
  | Str string
  | Obj "(string \<times> jsval) list"
  | Arr "jsval list"

text \<open>ToBoolean: what \<^verbatim>\<open>if (v)\<close>, \<^verbatim>\<open>!v\<close>, \<^verbatim>\<open>&&\<close> and \<^verbatim>\<open>||\<close> test.\<close>

fun truthy :: "jsval \<Rightarrow> bool" where
  "truthy Undefined = False"
| "truthy Null = False"
| "truthy (Bool b) = b"
| "truthy (Num r) = (r \<noteq> 0)"
| "truthy NaN = False"
| "truthy (Str s) = (s \<noteq> [])"
| "truthy (Obj ps) = True"
| "truthy (Arr vs) = True"

fun typeof :: "jsval \<Rightarrow> string" where
  "typeof Undefined = ''undefined''"
| "typeof Null = ''object''"
| "typeof (Bool b) = ''boolean''"
| "typeof (Num r) = ''number''"
| "typeof NaN = ''number''"
| "typeof (Str s) = ''string''"
| "typeof (Obj ps) = ''object''"
| "typeof (Arr vs) = ''object''"

text \<open>
  Strict equality \<^verbatim>\<open>===\<close>. Objects and arrays compare by identity; in this file every
  use of \<^verbatim>\<open>===\<close> has on one side a string literal, a number that passed a
  \<^verbatim>\<open>typeof\<close> check, or a value of another origin than the other side (a port of the
  configuration against a port of the detector or of the prober), so two operands are
  never the same object and the comparison of two objects is \<open>False\<close>.
\<close>

fun strict_eq :: "jsval \<Rightarrow> jsval \<Rightarrow> bool" where
  "strict_eq Undefined Undefined = True"
| "strict_eq Null Null = True"
| "strict_eq (Bool a) (Bool b) = (a = b)"
| "strict_eq (Num a) (Num b) = (a = b)"
| "strict_eq (Str a) (Str b) = (a = b)"
| "strict_eq a b = False"

definition js_or :: "jsval \<Rightarrow> jsval \<Rightarrow> jsval" where
  "js_or a b = (if truthy a then a else b)"

definition js_and :: "jsval \<Rightarrow> jsval \<Rightarrow> jsval" where
  "js_and a b = (if truthy a then b else a)"

text \<open>
  A property of the settings object is absent (\<open>None\<close>) or holds a value, which may be
  \<^verbatim>\<open>undefined\<close>. Reading an absent property gives \<^verbatim>\<open>undefined\<close>.
\<close>

definition getProp :: "jsval option \<Rightarrow> jsval" where
  "getProp p = (case p of None \<Rightarrow> Undefined | Some v \<Rightarrow> v)"

text \<open>Property access on a value, as \<^verbatim>\<open>const { keyFile, certFile } = options\<close> does.\<close>

definition field :: "string \<Rightarrow> jsval \<Rightarrow> jsval" where
  "field k v = (case v of Obj ps \<Rightarrow> getProp (map_of ps k) | _ \<Rightarrow> Undefined)"

text \<open>\<^verbatim>\<open>is-plain-obj\<close>: true of objects made by a literal or a parser, not of arrays.\<close>

definition isPlainObject :: "jsval \<Rightarrow> bool" where
  "isPlainObject v = (case v of Obj ps \<Rightarrow> True | _ \<Rightarrow> False)"

text \<open>
  A template literal is kept as its parts, the literal text and the substituted values,
  so that the formatting of numbers by JavaScript is not part of the model.
\<close>

datatype part = Lit string | Sub jsval

type_synonym message = "part list"

datatype error = TypeError message | Error message


section \<open>Inputs, framework descriptors and the settings object\<close>

text \<open>
  \<^verbatim>\<open>devConfig\<close>, the \<^verbatim>\<open>[dev]\<close> block of the configuration file. A property that is not
  set reads as \<^verbatim>\<open>undefined\<close>; the code never tells the two apart. The settings object
  has properties of the same names (\<^verbatim>\<open>framework\<close>, \<^verbatim>\<open>command\<close>, \<^verbatim>\<open>port\<close>, ...), so those
  of the configuration are written \<open>cfg_framework\<close>, \<open>cfg_command\<close>, \<open>cfg_port\<close>, ...
\<close>

record devConfig =
  cfg_framework :: jsval
  cfg_command :: jsval
  cfg_targetPort :: jsval
  cfg_port :: jsval
  cfg_publish :: jsval
  cfg_functions :: jsval
  cfg_functionsPort :: jsval
  cfg_jwtSecret :: jsval
  cfg_jwtRolePath :: jsval
  cfg_https :: jsval

record flags =
  dir :: jsval
  staticServerPort :: jsval

text \<open>
  A descriptor of \<^verbatim>\<open>@netlify/framework-info\<close>, with the properties this file reads:
  \<^verbatim>\<open>name\<close>, \<^verbatim>\<open>command\<close> (read by the prompt's label only), \<^verbatim>\<open>dev.commands\<close>,
  \<^verbatim>\<open>dev.port\<close>, \<^verbatim>\<open>build.directory\<close>, \<^verbatim>\<open>staticAssetsDirectory\<close>, \<^verbatim>\<open>env\<close> and
  \<^verbatim>\<open>watch.commands\<close> (each watch command a list of arguments). They are written
  \<open>fw_name\<close>, \<open>fw_command\<close>, \<open>dev_commands\<close>, \<open>dev_port\<close>, \<open>build_directory\<close>,
  \<open>staticAssetsDirectory\<close>, \<open>fw_env\<close> and \<open>watch_commands\<close>. The top-level \<^verbatim>\<open>command\<close>
  may be absent; the properties the code tests for truthiness are values of any type.
\<close>

record framework =
  fw_name :: string
  fw_command :: "string option"
  dev_commands :: "string list"
  dev_port :: jsval
  build_directory :: jsval
  staticAssetsDirectory :: jsval
  fw_env :: jsval
  watch_commands :: "string list list"

text \<open>
  The value of a prompt item, \<^verbatim>\<open>{ ...framework, commands: [command] }\<close>: the descriptor
  with one more top-level property.
\<close>

record chosenFramework = framework +
  commands :: "string list list"

record choice =
  choice_name :: string
  choice_value :: chosenFramework
  choice_short :: string

record settings =
  command :: "jsval option"
  frameworkPort :: "jsval option"
  dist :: "jsval option"
  framework :: "jsval option"
  env :: "jsval option"
  noCmd :: "jsval option"
  port :: "jsval option"
  jwtSecret :: "jsval option"
  jwtRolePath :: "jsval option"
  "functions" :: "jsval option"
  functionsPort :: "jsval option"
  https :: "jsval option"

text \<open>The object literal \<^verbatim>\<open>{}\<close>.\<close>

definition emptySettings :: settings where
  "emptySettings = \<lparr>command = None, frameworkPort = None, dist = None, framework = None,
     env = None, noCmd = None, port = None, jwtSecret = None, jwtRolePath = None,
     functions = None, functionsPort = None, https = None\<rparr>"

text \<open>
  What \<^verbatim>\<open>readFileAsyncCatchError\<close> resolves to: \<^verbatim>\<open>{ content, error }\<close>, where
  \<^verbatim>\<open>error\<close> is absent or an error object with a \<^verbatim>\<open>message\<close>.
\<close>

record read_result =
  content :: jsval
  error :: "string option"

section \<open>Collaborators and effects\<close>

text \<open>
  Every call of a collaborator is an event of the run. The world is the trace of the
  events so far and the state \<open>'x\<close> the collaborators answer from (the file system, the
  free ports, the user at the prompt); a collaborator maps its arguments and that state
  to its answer and the next state. Collaborators answer; a collaborator that throws is
  not modelled, the file reader apart, whose failure is a value. The prober
  (\<^verbatim>\<open>get-port\<close>) answers a port number. The record also holds what the code takes from
  \<^verbatim>\<open>chalk\<close>, \<^verbatim>\<open>fuzzy\<close>, \<^verbatim>\<open>path\<close>, \<^verbatim>\<open>process\<close> and \<^verbatim>\<open>./logo\<close>.
\<close>

datatype event =
    Log message
  | ListFrameworks string
  | HasFramework jsval string
  | GetFramework jsval string
  | Prompt "choice list"
  | GetPort jsval
  | ReadFile jsval

record 'x world =
  trace :: "event list"
  ext :: 'x

record 'x collaborators =
  listFrameworks :: "string \<Rightarrow> 'x \<Rightarrow> framework list \<times> 'x"
  hasFramework :: "jsval \<Rightarrow> string \<Rightarrow> 'x \<Rightarrow> bool \<times> 'x"
  getFramework :: "jsval \<Rightarrow> string \<Rightarrow> 'x \<Rightarrow> framework \<times> 'x"
  prompt :: "(jsval \<Rightarrow> choice list) \<Rightarrow> 'x \<Rightarrow> chosenFramework \<times> 'x"
  getPort :: "jsval \<Rightarrow> 'x \<Rightarrow> nat \<times> 'x"
  readFileAsyncCatchError :: "jsval \<Rightarrow> 'x \<Rightarrow> read_result \<times> 'x"
  fuzzyFilter :: "jsval \<Rightarrow> string list \<Rightarrow> string list"
  cwd :: "'x \<Rightarrow> string"
  yellow :: "string \<Rightarrow> string"
  relative :: "string \<Rightarrow> string \<Rightarrow> string"
  dirname :: "string \<Rightarrow> string"
  NETLIFYDEVLOG :: string
  NETLIFYDEVWARN :: string

text \<open>
  An asynchronous function is a function of the world that returns its result, or the
  error it threw, and the world after it. Each \<^verbatim>\<open>await\<close> is a sequencing step.
\<close>

type_synonym ('x, 'a) io = "'x world \<Rightarrow> (error + 'a) \<times> 'x world"

definition ret :: "'a \<Rightarrow> ('x, 'a) io" where
  "ret a w = (Inr a, w)"

definition throw :: "error \<Rightarrow> ('x, 'a) io" where
  "throw e w = (Inl e, w)"

definition lift :: "error + 'a \<Rightarrow> ('x, 'a) io" where
  "lift r w = (r, w)"

definition andThen :: "('x, 'a) io \<Rightarrow> ('a \<Rightarrow> ('x, 'b) io) \<Rightarrow> ('x, 'b) io" where
  "andThen m f w = (case m w of (Inl e, w') \<Rightarrow> (Inl e, w') | (Inr a, w') \<Rightarrow> f a w')"

definition followedBy :: "('x, unit) io \<Rightarrow> ('x, 'b) io \<Rightarrow> ('x, 'b) io" where
  "followedBy m k = andThen m (\<lambda>_. k)"

definition log :: "message \<Rightarrow> ('x, unit) io" where
  "log msg w = (Inr (), w\<lparr>trace := trace w @ [Log msg]\<rparr>)"

definition call :: "event \<Rightarrow> ('x \<Rightarrow> 'a \<times> 'x) \<Rightarrow> ('x, 'a) io" where
  "call ev f w = (case f (ext w) of (a, x') \<Rightarrow>
     (Inr a, \<lparr>trace = trace w @ [ev], ext = x'\<rparr>))"

text \<open>Reading the environment without an event: \<^verbatim>\<open>process.cwd()\<close>.\<close>

definition ask :: "('x \<Rightarrow> 'a) \<Rightarrow> ('x, 'a) io" where
  "ask f w = (Inr (f (ext w)), w)"

section \<open>The functions of detect-server.js\<close>

definition DEFAULT_PORT :: rat where
  "DEFAULT_PORT = 8888"

definition DEFAULT_STATIC_PORT :: rat where
  "DEFAULT_STATIC_PORT = 3999"

text \<open>
  \<^verbatim>\<open>readHttpsSettings\<close>, lines 14 to 40. \<^verbatim>\<open>Promise.all\<close> starts both reads before
  either result is looked at; the key file's error is tested first.
\<close>

definition readHttpsSettings :: "'x collaborators \<Rightarrow> jsval \<Rightarrow> ('x, jsval) io" where
  \<open>readHttpsSettings E options =
    (if \<not> isPlainObject options then
       throw (TypeError [Lit ''https options should be an object with 'keyFile' and 'certFile' string properties''])
     else let keyFile = field ''keyFile'' options; certFile = field ''certFile'' options in
       if typeof keyFile \<noteq> ''string'' then
         throw (TypeError [Lit ''Private key file configuration should be a string''])
       else if typeof certFile \<noteq> ''string'' then
         throw (TypeError [Lit ''Certificate file configuration should be a string''])
       else
         andThen (call (ReadFile keyFile) (readFileAsyncCatchError E keyFile)) (\<lambda>keyResult.
         andThen (call (ReadFile certFile) (readFileAsyncCatchError E certFile)) (\<lambda>certResult.
           case error keyResult of
             Some keyMessage \<Rightarrow>
               throw (Error [Lit ''Error reading private key file: '', Sub (Str keyMessage)])
           | None \<Rightarrow>
              (case error certResult of
                 Some certMessage \<Rightarrow>
                   throw (Error [Lit ''Error reading certificate file: '', Sub (Str certMessage)])
               | None \<Rightarrow>
                   ret (Obj [(''key'', content keyResult), (''cert'', content certResult)])))))\<close>

text \<open>
  \<^verbatim>\<open>getSettingsFromFramework\<close>, lines 42 to 55. The pattern \<^verbatim>\<open>commands: [command]\<close>
  takes the first element, \<^verbatim>\<open>undefined\<close> of an empty array. The function is defined
  on every extension of the descriptor: it reads no other property.
\<close>

definition getSettingsFromFramework :: "'a framework_scheme \<Rightarrow> settings" where
  "getSettingsFromFramework fw =
     emptySettings\<lparr>
       command := Some (case dev_commands fw of [] \<Rightarrow> Undefined | c # _ \<Rightarrow> Str c),
       frameworkPort := Some (dev_port fw),
       dist := Some (js_or (staticAssetsDirectory fw) (build_directory fw)),
       framework := Some (Str (fw_name fw)),
       env := Some (fw_env fw)\<rparr>"

text \<open>\<^verbatim>\<open>Array.prototype.join\<close> on an array of strings.\<close>

fun join :: "string \<Rightarrow> string list \<Rightarrow> string" where
  "join sep [] = []"
| "join sep [x] = x"
| "join sep (x # y # ys) = x @ sep @ join sep (y # ys)"

text \<open>
  \<^verbatim>\<open>formatSettingsArrForInquirer\<close>, lines 243 to 253: one item for each watch command
  of each framework. In the label \<^verbatim>\<open>${framework.command}\<close> is the descriptor's top-level
  \<^verbatim>\<open>command\<close> property, printed as \<^verbatim>\<open>undefined\<close> when absent; in \<^verbatim>\<open>short\<close> the
  array \<^verbatim>\<open>command\<close> is printed with commas.
\<close>

definition spread :: "framework \<Rightarrow> string list \<Rightarrow> chosenFramework" where
  "spread fw cmd = \<lparr>fw_name = fw_name fw, fw_command = fw_command fw,
     dev_commands = dev_commands fw, dev_port = dev_port fw,
     build_directory = build_directory fw, staticAssetsDirectory = staticAssetsDirectory fw,
     fw_env = fw_env fw, watch_commands = watch_commands fw, commands = [cmd]\<rparr>"

definition formatSettingsArrForInquirer :: "'x collaborators \<Rightarrow> framework list \<Rightarrow> choice list" where
  "formatSettingsArrForInquirer E frameworks =
     concat (map (\<lambda>fw. map (\<lambda>cmd.
       \<lparr>choice_name = ''['' @ yellow E (fw_name fw) @ ''] ''
            @ (case fw_command fw of None \<Rightarrow> ''undefined'' | Some c \<Rightarrow> c)
            @ '' '' @ join '' '' cmd,
        choice_value = spread fw cmd,
        choice_short = fw_name fw @ ''-'' @ join '','' cmd\<rparr>) (watch_commands fw)) frameworks)"

text \<open>
  \<^verbatim>\<open>filterSettings\<close>, lines 232 to 241. It is only called with a truthy \<^verbatim>\<open>input\<close>
  (line 78), where the names kept are the \<^verbatim>\<open>string\<close> of each match of \<^verbatim>\<open>fuzzy.filter\<close>.
\<close>

definition filterSettings :: "'x collaborators \<Rightarrow> choice list \<Rightarrow> jsval \<Rightarrow> choice list" where
  "filterSettings E scriptInquirerOptions input =
     (let filteredSettingNames = set (fuzzyFilter E input (map choice_name scriptInquirerOptions))
      in filter (\<lambda>t. choice_name t \<in> filteredSettingNames) scriptInquirerOptions)"

text \<open>
  The \<^verbatim>\<open>source(_, input)\<close> callback the prompt is given, lines 77 to 83: every item
  while nothing is typed, the matching ones after.
\<close>

definition source :: "'x collaborators \<Rightarrow> choice list \<Rightarrow> jsval \<Rightarrow> choice list" where
  "source E scriptInquirerOptions input =
     (if \<not> truthy input \<or> strict_eq input (Str []) then scriptInquirerOptions
      else filterSettings E scriptInquirerOptions input)"

text \<open>
  \<^verbatim>\<open>detectFrameworkSettings\<close>, lines 57 to 93. The event of the prompt records the
  items \<^verbatim>\<open>scriptInquirerOptions\<close> it chooses from.
\<close>

definition detectFrameworkSettings :: "'x collaborators \<Rightarrow> string \<Rightarrow> ('x, settings) io" where
  \<open>detectFrameworkSettings E projectDir =
     andThen (call (ListFrameworks projectDir) (listFrameworks E projectDir)) (\<lambda>frameworks.
       if length frameworks = 1 then ret (getSettingsFromFramework (frameworks ! 0))
       else if length frameworks > 1 then
         (let scriptInquirerOptions = formatSettingsArrForInquirer E frameworks
          in andThen (call (Prompt scriptInquirerOptions)
                           (prompt E (source E scriptInquirerOptions))) (\<lambda>chosenFramework.
             followedBy (log [Lit ''Add `framework = "'', Sub (Str (fw_name chosenFramework)),
                 Lit ''"` to [dev] section of your netlify.toml to avoid this selection prompt next time''])
               (ret (getSettingsFromFramework chosenFramework))))
       else ret emptySettings)\<close>

text \<open>\<^verbatim>\<open>validateCustomSettings\<close>, lines 95 to 105.\<close>

definition validateCustomSettings :: "devConfig \<Rightarrow> error + unit" where
  \<open>validateCustomSettings devConfig =
     (let hasCommandAndTargetPort = js_and (cfg_command devConfig) (cfg_targetPort devConfig) in
      if strict_eq (cfg_framework devConfig) (Str ''#custom'') \<and> \<not> truthy hasCommandAndTargetPort then
        Inl (Error [Lit ''"command" and "targetPort" properties are required when "framework" is set to "#custom"''])
      else if \<not> strict_eq (cfg_framework devConfig) (Str ''#custom'')
              \<and> truthy (js_and (cfg_command devConfig) (cfg_targetPort devConfig)) then
        Inl (Error [Lit ''"framework" option must be set to "#custom" when specifying both "command" and "targetPort" options''])
      else Inr ())\<close>

text \<open>
  \<^verbatim>\<open>getStaticServerSettings\<close>, lines 213 to 228. Node's \<^verbatim>\<open>path.relative\<close> throws a
  \<^verbatim>\<open>TypeError\<close> when an argument is not a string, which \<^verbatim>\<open>dist\<close> (a flag or a
  property of the configuration) can be; \<^verbatim>\<open>projectDir\<close> is a string. The template is
  evaluated before \<^verbatim>\<open>log\<close> is called and the port is asked for after it.
\<close>

definition getStaticServerSettings ::
  "'x collaborators \<Rightarrow> jsval \<Rightarrow> jsval \<Rightarrow> string \<Rightarrow> ('x, settings) io" where
  \<open>getStaticServerSettings E dist0 port0 projectDir =
     andThen
       (if \<not> truthy dist0 then
          followedBy (log [Lit (NETLIFYDEVLOG E), Lit '' Using current working directory''])
         (followedBy (log [Lit (NETLIFYDEVWARN E), Lit '' Unable to determine public folder to serve files from''])
         (followedBy (log [Lit (NETLIFYDEVWARN E), Lit '' Setup a netlify.toml file with a [dev] section to specify your dev server settings.''])
         (followedBy (log [Lit (NETLIFYDEVWARN E), Lit '' See docs at: https://cli.netlify.com/netlify-dev#project-detection''])
         (andThen (ask (cwd E)) (\<lambda>d. ret (Str d))))))
        else ret dist0)
       (\<lambda>dist1.
          case dist1 of
            Str d \<Rightarrow>
              followedBy (log [Lit (NETLIFYDEVWARN E), Lit '' Running static server from "'',
                               Sub (Str (relative E (dirname E projectDir) d)), Lit ''"''])
             (andThen (call (GetPort (js_or port0 (Num DEFAULT_STATIC_PORT)))
                            (getPort E (js_or port0 (Num DEFAULT_STATIC_PORT)))) (\<lambda>n.
                ret (emptySettings\<lparr>noCmd := Some (Bool True),
                                     frameworkPort := Some (Num (of_nat n)),
                                     dist := Some dist1\<rparr>)))
          | _ \<Rightarrow>
              throw (TypeError [Lit ''The "to" argument must be of type string. Received '', Sub dist1]))\<close>

text \<open>
  \<^verbatim>\<open>serverSettings\<close>, lines 107 to 209, in the order of the source. The body is cut
  into named blocks so that a property can speak of the run up to a line.

  Lines 112 to 135: the branch that gives the first settings object.
\<close>

definition originSettings ::
  "'x collaborators \<Rightarrow> devConfig \<Rightarrow> flags \<Rightarrow> string \<Rightarrow> ('x, settings) io" where
  \<open>originSettings E devConfig flags projectDir =
     (if truthy (dir flags) then
        followedBy (log [Lit (NETLIFYDEVWARN E), Lit '' Using simple static server because --dir flag was specified''])
          (getStaticServerSettings E (dir flags) (staticServerPort flags) projectDir)
      else if strict_eq (cfg_framework devConfig) (Str ''#auto'')
              \<and> \<not> truthy (js_and (cfg_command devConfig) (cfg_targetPort devConfig)) then
        detectFrameworkSettings E projectDir
      else if strict_eq (cfg_framework devConfig) (Str ''#custom'')
              \<or> truthy (js_and (cfg_command devConfig) (cfg_targetPort devConfig)) then
        followedBy (lift (validateCustomSettings devConfig))
          (ret (emptySettings\<lparr>framework := Some (Str ''#custom'')\<rparr>))
      else if \<not> strict_eq (cfg_framework devConfig) (Str ''#static'') then
        andThen (call (HasFramework (cfg_framework devConfig) projectDir)
                      (hasFramework E (cfg_framework devConfig) projectDir)) (\<lambda>hasConfigFramework.
          if \<not> hasConfigFramework then
            throw (Error [Lit ''Specified "framework" detector "'', Sub (cfg_framework devConfig),
                          Lit ''" did not pass requirements for your project''])
          else
            andThen (call (GetFramework (cfg_framework devConfig) projectDir)
                          (getFramework E (cfg_framework devConfig) projectDir)) (\<lambda>fw.
              ret (getSettingsFromFramework fw)))
      else ret emptySettings)\<close>

text \<open>Lines 137 to 144: the configured command replaces the derived one.\<close>

definition overrideCommand :: "'x collaborators \<Rightarrow> devConfig \<Rightarrow> settings \<Rightarrow> ('x, settings) io" where
  \<open>overrideCommand E devConfig s =
     (if \<not> truthy (getProp (noCmd s)) \<and> truthy (cfg_command devConfig) then
        followedBy (log [Lit (NETLIFYDEVLOG E), Lit '' Overriding '', Lit (yellow E ''command''),
                         Lit '' with setting derived from netlify.toml [dev] block: '',
                         Sub (cfg_command devConfig)])
          (ret (s\<lparr>command := Some (cfg_command devConfig)\<rparr>))
      else ret s)\<close>

text \<open>Lines 148 to 169: the rules of \<^verbatim>\<open>targetPort\<close>, in the order the source tests them.\<close>

definition targetPortRules :: "devConfig \<Rightarrow> flags \<Rightarrow> settings \<Rightarrow> error + settings" where
  \<open>targetPortRules devConfig flags s =
     (if truthy (cfg_targetPort devConfig) then
        if truthy (cfg_targetPort devConfig) \<and> typeof (cfg_targetPort devConfig) \<noteq> ''number'' then
          Inl (Error [Lit ''Invalid "targetPort" option specified. The value of "targetPort" option must be an integer''])
        else if strict_eq (cfg_targetPort devConfig) (cfg_port devConfig) then
          Inl (Error [Lit ''"port" and "targetPort" options cannot have same values. Please consult the documentation for more details: https://cli.netlify.com/netlify-dev#netlifytoml-dev-block''])
        else if \<not> truthy (getProp (command s)) then
          Inl (Error [Lit ''No "command" specified or detected. The "command" option is required to use "targetPort" option.''])
        else if truthy (dir flags) then
          Inl (Error [Lit ''"targetPort" option cannot be used in conjunction with "dir" flag which is used to run a static server.''])
        else Inr (s\<lparr>frameworkPort := Some (cfg_targetPort devConfig)\<rparr>)
      else Inr s)\<close>

text \<open>Lines 170 to 174, and again lines 187 to 191.\<close>

definition checkPortConflict :: "devConfig \<Rightarrow> settings \<Rightarrow> error + settings" where
  \<open>checkPortConflict devConfig s =
     (if truthy (cfg_port devConfig) \<and> strict_eq (cfg_port devConfig) (getProp (frameworkPort s)) then
        Inl (Error [Lit ''The "port" option you specified conflicts with the port of your application. Please use a different value for "port"''])
      else Inr s)\<close>

text \<open>Lines 176 to 179: nothing to run, serve the files.\<close>

definition staticFallback ::
  "'x collaborators \<Rightarrow> flags \<Rightarrow> string \<Rightarrow> settings \<Rightarrow> ('x, settings) io" where
  \<open>staticFallback E flags projectDir s =
     (if \<not> truthy (getProp (command s)) \<and> \<not> truthy (getProp (framework s))
          \<and> \<not> truthy (getProp (noCmd s)) then
        followedBy (log [Lit (NETLIFYDEVWARN E), Lit '' No app server detected and no "command" specified''])
          (getStaticServerSettings E (getProp (dist s)) (staticServerPort flags) projectDir)
      else ret s)\<close>

text \<open>Lines 108 to 191: everything before the proxy's port is asked for.\<close>

definition settingsBeforeProxyPort ::
  "'x collaborators \<Rightarrow> devConfig \<Rightarrow> flags \<Rightarrow> string \<Rightarrow> ('x, settings) io" where
  \<open>settingsBeforeProxyPort E devConfig flags projectDir =
     (if typeof (cfg_framework devConfig) \<noteq> ''string'' then
        throw (TypeError [Lit ''Invalid "framework" option provided in config''])
      else
        andThen (originSettings E devConfig flags projectDir) (\<lambda>s1.
        andThen (overrideCommand E devConfig s1) (\<lambda>s2.
        andThen (lift (targetPortRules devConfig flags
                   (s2\<lparr>dist := Some (js_or (dir flags) (js_or (cfg_publish devConfig) (getProp (dist s2))))\<rparr>))) (\<lambda>s3.
        andThen (lift (checkPortConflict devConfig s3)) (\<lambda>s4.
        andThen (staticFallback E flags projectDir s4) (\<lambda>s5.
          if \<not> truthy (getProp (frameworkPort s5)) then
            throw (Error [Lit ''No "targetPort" option specified or detected.''])
          else if truthy (cfg_port devConfig) \<and> typeof (cfg_port devConfig) \<noteq> ''number'' then
            throw (Error [Lit ''Invalid "port" option specified. The value of "port" option must be an integer''])
          else lift (checkPortConflict devConfig s5)))))))\<close>

text \<open>Lines 192 to 196: the proxy's port.\<close>

definition acquireProxyPort :: "'x collaborators \<Rightarrow> devConfig \<Rightarrow> settings \<Rightarrow> ('x, settings) io" where
  \<open>acquireProxyPort E devConfig s =
     (let triedPort = js_or (cfg_port devConfig) (Num DEFAULT_PORT) in
      andThen (call (GetPort triedPort) (getPort E triedPort)) (\<lambda>n.
        if \<not> strict_eq triedPort (Num (of_nat n)) \<and> truthy (cfg_port devConfig) then
          throw (Error [Lit ''Could not acquire required "port": '', Sub triedPort])
        else ret (s\<lparr>port := Some (Num (of_nat n))\<rparr>)))\<close>

text \<open>Lines 198 to 203: the defaults and the port of the functions server.\<close>

definition assignDefaults :: "'x collaborators \<Rightarrow> devConfig \<Rightarrow> settings \<Rightarrow> ('x, settings) io" where
  \<open>assignDefaults E devConfig s =
     (let s1 = s\<lparr>jwtSecret := Some (js_or (cfg_jwtSecret devConfig) (Str ''secret'')),
                 jwtRolePath := Some (js_or (cfg_jwtRolePath devConfig) (Str ''app_metadata.authorization.roles'')),
                 functions := Some (js_or (cfg_functions devConfig) (getProp (functions s)))\<rparr>
      in if truthy (getProp (functions s1)) then
           andThen (call (GetPort (js_or (cfg_functionsPort devConfig) (Num 0)))
                         (getPort E (js_or (cfg_functionsPort devConfig) (Num 0)))) (\<lambda>n.
             ret (s1\<lparr>functionsPort := Some (Num (of_nat n))\<rparr>))
         else ret s1)\<close>

text \<open>Lines 108 to 203.\<close>

definition settingsBeforeHttps ::
  "'x collaborators \<Rightarrow> devConfig \<Rightarrow> flags \<Rightarrow> string \<Rightarrow> ('x, settings) io" where
  "settingsBeforeHttps E devConfig flags projectDir =
     andThen (settingsBeforeProxyPort E devConfig flags projectDir) (\<lambda>s.
     andThen (acquireProxyPort E devConfig s) (assignDefaults E devConfig))"

text \<open>Lines 204 to 206.\<close>

definition attachHttps :: "'x collaborators \<Rightarrow> devConfig \<Rightarrow> settings \<Rightarrow> ('x, settings) io" where
  "attachHttps E devConfig s =
     (if truthy (cfg_https devConfig) then
        andThen (readHttpsSettings E (cfg_https devConfig)) (\<lambda>h. ret (s\<lparr>https := Some h\<rparr>))
      else ret s)"

definition serverSettings ::
  "'x collaborators \<Rightarrow> devConfig \<Rightarrow> flags \<Rightarrow> string \<Rightarrow> ('x, settings) io" where
  "serverSettings E devConfig flags projectDir =
     andThen (settingsBeforeHttps E devConfig flags projectDir) (attachHttps E devConfig)"

section \<open>Properties of runs and test doubles\<close>

text \<open>The custom branch of line 121 is reached: line 108 passed and no earlier branch matched.\<close>

definition customBranchTaken :: "devConfig \<Rightarrow> flags \<Rightarrow> bool" where
  "customBranchTaken devConfig flags \<longleftrightarrow>
     typeof (cfg_framework devConfig) = ''string'' \<and> \<not> truthy (dir flags)
     \<and> \<not> (strict_eq (cfg_framework devConfig) (Str ''#auto'')
            \<and> \<not> truthy (js_and (cfg_command devConfig) (cfg_targetPort devConfig)))
     \<and> (strict_eq (cfg_framework devConfig) (Str ''#custom'')
        \<or> truthy (js_and (cfg_command devConfig) (cfg_targetPort devConfig)))"

fun isPrompt :: "event \<Rightarrow> bool" where
  "isPrompt (Prompt items) = True"
| "isPrompt ev = False"

text \<open>How often the prompt was shown in a trace.\<close>

definition promptCount :: "event list \<Rightarrow> nat" where
  "promptCount tr = length (filter isPrompt tr)"

text \<open>
  What the prompt is to offer for one watch command of one framework, to compare
  \<^verbatim>\<open>formatSettingsArrForInquirer\<close> with: the label \<^verbatim>\<open>[name] command args\<close>, where the name
  is styled by \<^verbatim>\<open>chalk.yellow\<close>, the command is the descriptor's top-level \<^verbatim>\<open>command\<close>
  property and the arguments are joined by spaces; the descriptor with the watch command
  as its \<^verbatim>\<open>commands\<close>; and the short form \<^verbatim>\<open>name-args\<close> with the arguments joined by
  commas.
\<close>

definition promptItem :: "'x collaborators \<Rightarrow> framework \<Rightarrow> string list \<Rightarrow> choice" where
  "promptItem E fw cmd =
     \<lparr>choice_name = ''['' @ yellow E (fw_name fw) @ ''] ''
          @ (case fw_command fw of None \<Rightarrow> ''undefined'' | Some c \<Rightarrow> c)
          @ '' '' @ join '' '' cmd,
      choice_value = spread fw cmd,
      choice_short = fw_name fw @ ''-'' @ join '','' cmd\<rparr>"

text \<open>
  A computation whose result does not depend on the world it starts in, and
  collaborators whose answers do not depend on the state they are asked in.
\<close>

definition stateless :: "('x, 'a) io \<Rightarrow> bool" where
  "stateless m \<longleftrightarrow> (\<forall>w1 w2. fst (m w1) = fst (m w2))"

definition deterministic :: "'x collaborators \<Rightarrow> bool" where
  "deterministic E \<longleftrightarrow>
     (\<forall>d x y. fst (listFrameworks E d x) = fst (listFrameworks E d y))
   \<and> (\<forall>f d x y. fst (hasFramework E f d x) = fst (hasFramework E f d y))
   \<and> (\<forall>f d x y. fst (getFramework E f d x) = fst (getFramework E f d y))
   \<and> (\<forall>src x y. fst (prompt E src x) = fst (prompt E src y))
   \<and> (\<forall>p x y. fst (getPort E p x) = fst (getPort E p y))
   \<and> (\<forall>f x y. fst (readFileAsyncCatchError E f x) = fst (readFileAsyncCatchError E f y))
   \<and> (\<forall>x y. cwd E x = cwd E y)"

text \<open>
  Test doubles. The state of the collaborators counts their calls. The detector knows
  the given frameworks, the user picks the item at the given position, the prober is
  given as a function of the preferred port, and the file reader fails on the given
  path only. \<open>preferredPort\<close> is the prober that finds every port free: it returns
  the port it is asked for, and a port of its own when it is asked for none.
\<close>

definition preferredPort :: "jsval \<Rightarrow> nat" where
  "preferredPort p = (case p of Num r \<Rightarrow> if 1 \<le> r then nat \<lfloor>r\<rfloor> else 49152 | _ \<Rightarrow> 49152)"

definition noFramework :: framework where
  "noFramework = \<lparr>fw_name = [], fw_command = None, dev_commands = [], dev_port = Undefined,
     build_directory = Undefined, staticAssetsDirectory = Undefined, fw_env = Undefined,
     watch_commands = []\<rparr>"

definition stub :: "framework list \<Rightarrow> nat \<Rightarrow> (jsval \<Rightarrow> nat) \<Rightarrow> jsval \<Rightarrow> nat collaborators" where
  "stub fws pick prober unreadable =
     \<lparr>listFrameworks = (\<lambda>d x. (fws, Suc x)),
      hasFramework = (\<lambda>f d x. (f \<in> set (map (\<lambda>fw. Str (fw_name fw)) fws), Suc x)),
      getFramework = (\<lambda>f d x.
        (case filter (\<lambda>fw. Str (fw_name fw) = f) fws of [] \<Rightarrow> noFramework | fw # _ \<Rightarrow> fw, Suc x)),
      prompt = (\<lambda>src x. (choice_value (src Undefined ! pick), Suc x)),
      getPort = (\<lambda>p x. (prober p, Suc x)),
      readFileAsyncCatchError = (\<lambda>f x.
        (if f = unreadable then \<lparr>content = Undefined, error = Some ''ENOENT: no such file or directory''\<rparr>
         else \<lparr>content = Str ''-----BEGIN-----'', error = None\<rparr>, Suc x)),
      fuzzyFilter = (\<lambda>input names. names),
      cwd = (\<lambda>x. ''/home/user/site''),
      yellow = (\<lambda>t. t),
      relative = (\<lambda>from to. to),
      dirname = (\<lambda>d. d),
      NETLIFYDEVLOG = ''log'',
      NETLIFYDEVWARN = ''warn''\<rparr>"

definition emptyConfig :: devConfig where
  "emptyConfig = \<lparr>cfg_framework = Str ''#auto'', cfg_command = Undefined,
     cfg_targetPort = Undefined, cfg_port = Undefined, cfg_publish = Undefined,
     cfg_functions = Undefined, cfg_functionsPort = Undefined, cfg_jwtSecret = Undefined,
     cfg_jwtRolePath = Undefined, cfg_https = Undefined\<rparr>"

definition noFlags :: flags where
  "noFlags = \<lparr>dir = Undefined, staticServerPort = Undefined\<rparr>"

definition start :: "nat world" where
  "start = \<lparr>trace = [], ext = 0\<rparr>"

text \<open>Two descriptors for the detector's double.\<close>

definition gatsby :: framework where
  "gatsby = \<lparr>fw_name = ''gatsby'', fw_command = None, dev_commands = [''gatsby develop''],
     dev_port = Num 8000, build_directory = Str ''public'', staticAssetsDirectory = Undefined,
     fw_env = Obj [(''GATSBY_LOGGER'', Str ''yurnalist'')],
     watch_commands = [[''run'', ''develop''], [''run'', ''start'']]\<rparr>"

definition hugo :: framework where
  "hugo = \<lparr>fw_name = ''hugo'', fw_command = Some ''hugo'', dev_commands = [''hugo server -w''],
     dev_port = Num 1313, build_directory = Str ''public'', staticAssetsDirectory = Undefined,
     fw_env = Undefined, watch_commands = [[''server'', ''-w'']]\<rparr>"

text \<open>
  A configuration of the custom kind; a site where both frameworks are detected, the
  user picks the second item, every port is free and \<^verbatim>\<open>c.pem\<close> cannot be read; and
  a machine where every preferred port is taken and the prober answers 8081.
\<close>

definition customConfig :: devConfig where
  "customConfig = emptyConfig\<lparr>cfg_framework := Str ''#custom'', cfg_command := Str ''npm start'',
     cfg_targetPort := Num 3000\<rparr>"

definition site :: "nat collaborators" where
  "site = stub [gatsby, hugo] 1 preferredPort (Str ''c.pem'')"

definition busy :: "nat collaborators" where
  "busy = stub [] 0 (\<lambda>p. 8081) Undefined"

section \<open>Sequencing\<close>

lemma andThen_ret [simp]: "andThen (ret a) f = f a"
  by (rule ext) (simp add: andThen_def ret_def)

lemma andThen_throw [simp]: "andThen (throw e) f = throw e"
  by (rule ext) (simp add: andThen_def throw_def)

lemma lift_Inl [simp]: "lift (Inl e) = throw e"
  by (rule ext) (simp add: lift_def throw_def)

lemma lift_Inr [simp]: "lift (Inr a) = ret a"
  by (rule ext) (simp add: lift_def ret_def)

lemma andThen_Inr: "m w = (Inr a, w') \<Longrightarrow> andThen m f w = f a w'"
  by (simp add: andThen_def)

lemma andThen_Inl: "m w = (Inl e, w') \<Longrightarrow> andThen m f w = (Inl e, w')"
  by (simp add: andThen_def)

lemma followedBy_log [simp]:
  "followedBy (log msg) k w = k (w\<lparr>trace := trace w @ [Log msg]\<rparr>)"
  by (simp add: followedBy_def andThen_def log_def)

lemma andThen_call [simp]:
  "andThen (call ev c) f w =
     f (fst (c (ext w))) \<lparr>trace = trace w @ [ev], ext = snd (c (ext w))\<rparr>"
  by (simp add: andThen_def call_def split: prod.splits)

lemma andThen_ask [simp]: "andThen (ask g) f w = f (g (ext w)) w"
  by (simp add: andThen_def ask_def)

lemma log_apply [simp]: "log msg w = (Inr (), w\<lparr>trace := trace w @ [Log msg]\<rparr>)"
  by (simp add: log_def)

lemma call_apply [simp]:
  "call ev c w = (Inr (fst (c (ext w))), \<lparr>trace = trace w @ [ev], ext = snd (c (ext w))\<rparr>)"
  by (simp add: call_def split: prod.splits)

lemma ask_apply [simp]: "ask g w = (Inr (g (ext w)), w)"
  by (simp add: ask_def)

lemma lift_apply [simp]: "lift r w = (r, w)"
  by (simp add: lift_def)

lemma andThen_assoc: "andThen (andThen m f) g = andThen m (\<lambda>a. andThen (f a) g)"
  by (rule ext) (simp add: andThen_def split: prod.splits sum.splits)

lemma ret_apply [simp]: "ret a w = (Inr a, w)"
  by (simp add: ret_def)

lemma throw_apply [simp]: "throw e w = (Inl e, w)"
  by (simp add: throw_def)

lemma truthy_js_and [simp]: "truthy (js_and a b) = (truthy a \<and> truthy b)"
  by (simp add: js_and_def)

lemma truthy_js_or [simp]: "truthy (js_or a b) = (truthy a \<or> truthy b)"
  by (simp add: js_or_def)

lemmas blocks = serverSettings_def settingsBeforeHttps_def settingsBeforeProxyPort_def
  originSettings_def overrideCommand_def targetPortRules_def checkPortConflict_def
  staticFallback_def acquireProxyPort_def assignDefaults_def attachHttps_def
  getStaticServerSettings_def detectFrameworkSettings_def validateCustomSettings_def
  readHttpsSettings_def getSettingsFromFramework_def emptySettings_def
  andThen_def followedBy_def getProp_def js_or_def js_and_def Let_def
  DEFAULT_PORT_def DEFAULT_STATIC_PORT_def

lemmas doubles = stub_def preferredPort_def emptyConfig_def noFlags_def start_def
  noFramework_def gatsby_def hugo_def customConfig_def site_def busy_def



lemma strict_eq_Num: "strict_eq v (Num r) \<longleftrightarrow> v = Num r"
  by (cases v) auto

lemma preferredPort_positive: "0 < preferredPort p"
  by (simp add: preferredPort_def split: jsval.splits)

section \<open>What a successful run went through\<close>





lemma overrideCommand_Inr: "\<exists>s' w'. overrideCommand E devConfig s w = (Inr s', w')"
  by (simp add: overrideCommand_def)

section \<open>The proxy's port and the application's port\<close>




text \<open>
  C2. Once the run has reached line 192 and the prober has answered \<open>n\<close> for the
  tried port: if \<^verbatim>\<open>devConfig.port\<close> is supplied and \<open>n\<close> is another port, the call
  fails with \<^verbatim>\<open>Could not acquire required "port"\<close>; if it is absent, the tried port is
  8888 and the run goes on with \<^verbatim>\<open>port\<close> set to \<open>n\<close>, whatever \<open>n\<close> is.
\<close>

theorem pinned_port_must_be_acquired:
  assumes before: "settingsBeforeProxyPort E devConfig flags projectDir w = (Inr s, w1)"
    and prober: "getPort E (js_or (cfg_port devConfig) (Num DEFAULT_PORT)) (ext w1) = (n, x)"
  shows \<open>(truthy (cfg_port devConfig) \<and> cfg_port devConfig \<noteq> Num (of_nat n) \<longrightarrow>
            fst (serverSettings E devConfig flags projectDir w) =
              Inl (Error [Lit ''Could not acquire required "port": '', Sub (cfg_port devConfig)]))
       \<and> (\<not> truthy (cfg_port devConfig) \<longrightarrow>
            serverSettings E devConfig flags projectDir w =
              andThen (assignDefaults E devConfig (s\<lparr>port := Some (Num (of_nat n))\<rparr>)) (attachHttps E devConfig)
                \<lparr>trace = trace w1 @ [GetPort (Num 8888)], ext = x\<rparr>)\<close>
proof -
  have run: "serverSettings E devConfig flags projectDir w =
      andThen (andThen (acquireProxyPort E devConfig s) (assignDefaults E devConfig)) (attachHttps E devConfig) w1"
    by (simp add: serverSettings_def settingsBeforeHttps_def andThen_assoc
        andThen_Inr [of "settingsBeforeProxyPort E devConfig flags projectDir", OF before])
  show ?thesis
  proof (cases "truthy (cfg_port devConfig)")
    case True
    with prober have "getPort E (cfg_port devConfig) (ext w1) = (n, x)"
      by (simp add: js_or_def)
    with True show ?thesis
      by (auto simp: run acquireProxyPort_def Let_def andThen_def js_or_def strict_eq_Num)
  next
    case False
    with prober have "getPort E (Num 8888) (ext w1) = (n, x)"
      by (simp add: js_or_def DEFAULT_PORT_def)
    with False show ?thesis
      by (simp add: run acquireProxyPort_def Let_def andThen_def js_or_def DEFAULT_PORT_def)
  qed
qed

theorem pinned_port_must_be_acquired_witness:
  \<open>truthy (cfg_port (customConfig\<lparr>cfg_port := Num 8080\<rparr>))
   \<and> getPort busy (Num 8080) 0 = (8081, 1)
   \<and> fst (serverSettings busy (customConfig\<lparr>cfg_port := Num 8080\<rparr>) noFlags ''/home/user/site'' start)
       = Inl (Error [Lit ''Could not acquire required "port": '', Sub (Num 8080)])
   \<and> \<not> truthy (cfg_port customConfig)
   \<and> getPort busy (Num 8888) 0 = (8081, 1)
   \<and> fst (serverSettings busy customConfig noFlags ''/home/user/site'' start)
       = Inr \<lparr>command = Some (Str ''npm start''), frameworkPort = Some (Num 3000),
              dist = Some Undefined, framework = Some (Str ''#custom''), env = None, noCmd = None,
              port = Some (Num 8081), jwtSecret = Some (Str ''secret''),
              jwtRolePath = Some (Str ''app_metadata.authorization.roles''),
              functions = Some Undefined, functionsPort = None, https = None\<rparr>\<close>
proof -
  let ?s = "\<lparr>command = Some (Str ''npm start''), frameworkPort = Some (Num 3000),
              dist = Some Undefined, framework = Some (Str ''#custom''), env = None, noCmd = None,
              port = None, jwtSecret = None, jwtRolePath = None,
              functions = None, functionsPort = None, https = None\<rparr>"
  let ?w = "\<lparr>trace = [Log [Lit ''log'', Lit '' Overriding '', Lit ''command'',
              Lit '' with setting derived from netlify.toml [dev] block: '', Sub (Str ''npm start'')]],
            ext = 0::nat\<rparr>"
  have pinned: "settingsBeforeProxyPort busy (customConfig\<lparr>cfg_port := Num 8080\<rparr>) noFlags
      ''/home/user/site'' start = (Inr ?s, ?w)"
    by (simp add: blocks doubles)
  have taken: "getPort busy (js_or (cfg_port (customConfig\<lparr>cfg_port := Num 8080\<rparr>)) (Num DEFAULT_PORT))
      (ext ?w) = (8081, 1)"
    by (simp add: blocks doubles)
  have unpinned: "settingsBeforeProxyPort busy customConfig noFlags ''/home/user/site'' start = (Inr ?s, ?w)"
    by (simp add: blocks doubles)
  have shifted: "getPort busy (js_or (cfg_port customConfig) (Num DEFAULT_PORT)) (ext ?w) = (8081, 1)"
    by (simp add: blocks doubles)
  from pinned_port_must_be_acquired [OF pinned taken] pinned_port_must_be_acquired [OF unpinned shifted]
  show ?thesis
    by (simp add: blocks doubles)
qed

section \<open>The custom branch\<close>

text \<open>
  C3. When the custom branch of line 121 is taken: with \<^verbatim>\<open>framework\<close> equal to
  \<^verbatim>\<open>"#custom"\<close> and \<^verbatim>\<open>command\<close> and \<^verbatim>\<open>targetPort\<close> not both supplied, the call fails
  with the error that both are required; with both supplied and \<^verbatim>\<open>framework\<close> another
  value, it fails with the error that \<^verbatim>\<open>framework\<close> must be \<^verbatim>\<open>"#custom"\<close>. No
  collaborator has been called by then: the world is unchanged.
\<close>

theorem custom_branch_validation:
  assumes "customBranchTaken devConfig flags"
  shows \<open>(strict_eq (cfg_framework devConfig) (Str ''#custom'')
            \<and> \<not> (truthy (cfg_command devConfig) \<and> truthy (cfg_targetPort devConfig))
          \<longrightarrow> serverSettings E devConfig flags projectDir w =
               (Inl (Error [Lit ''"command" and "targetPort" properties are required when "framework" is set to "#custom"'']), w))
       \<and> (truthy (cfg_command devConfig) \<and> truthy (cfg_targetPort devConfig)
            \<and> \<not> strict_eq (cfg_framework devConfig) (Str ''#custom'')
          \<longrightarrow> serverSettings E devConfig flags projectDir w =
               (Inl (Error [Lit ''"framework" option must be set to "#custom" when specifying both "command" and "targetPort" options'']), w))\<close>
  using assms
  by (simp add: customBranchTaken_def serverSettings_def settingsBeforeHttps_def
      settingsBeforeProxyPort_def originSettings_def validateCustomSettings_def followedBy_def)

theorem custom_branch_validation_witness:
  \<open>customBranchTaken (emptyConfig\<lparr>cfg_framework := Str ''#custom'', cfg_command := Str ''npm start''\<rparr>) noFlags
   \<and> serverSettings (site)
        (emptyConfig\<lparr>cfg_framework := Str ''#custom'', cfg_command := Str ''npm start''\<rparr>)
        noFlags ''/home/user/site'' start =
      (Inl (Error [Lit ''"command" and "targetPort" properties are required when "framework" is set to "#custom"'']), start)
   \<and> customBranchTaken (emptyConfig\<lparr>cfg_framework := Str ''gatsby'', cfg_command := Str ''npm start'',
                                       cfg_targetPort := Num 3000\<rparr>) noFlags
   \<and> serverSettings (site)
        (emptyConfig\<lparr>cfg_framework := Str ''gatsby'', cfg_command := Str ''npm start'',
                      cfg_targetPort := Num 3000\<rparr>)
        noFlags ''/home/user/site'' start =
      (Inl (Error [Lit ''"framework" option must be set to "#custom" when specifying both "command" and "targetPort" options'']), start)\<close>
  using custom_branch_validation [of "emptyConfig\<lparr>cfg_framework := Str ''#custom'', cfg_command := Str ''npm start''\<rparr>"
      noFlags "site" "''/home/user/site''" start]
    custom_branch_validation [of "emptyConfig\<lparr>cfg_framework := Str ''gatsby'', cfg_command := Str ''npm start'',
                      cfg_targetPort := Num 3000\<rparr>"
      noFlags "site" "''/home/user/site''" start]
  by (simp add: customBranchTaken_def emptyConfig_def noFlags_def)

section \<open>The target port and the static directory\<close>

lemma fst_andThen_eq_Inl:
  "fst (andThen m f w) = Inl e \<longleftrightarrow>
     fst (m w) = Inl e \<or> (\<exists>a w'. m w = (Inr a, w') \<and> fst (f a w') = Inl e)"
  by (cases "m w" rule: prod.exhaust; cases "fst (m w)") (auto simp: andThen_def)

lemma getStaticServerSettings_Inr:
  "getStaticServerSettings E d p projectDir w = (Inr s, w') \<Longrightarrow>
     command s = None \<and> noCmd s = Some (Bool True)"
  by (auto simp: getStaticServerSettings_def andThen_def followedBy_def emptySettings_def
      split: if_splits jsval.splits)

lemma getStaticServerSettings_Inl:
  "fst (getStaticServerSettings E d p projectDir w) = Inl e \<Longrightarrow> \<exists>m. e = TypeError m"
  by (auto simp: getStaticServerSettings_def andThen_def followedBy_def
      split: if_splits jsval.splits)

lemma detectFrameworkSettings_Inr:
  "\<exists>s. fst (detectFrameworkSettings E projectDir w) = Inr s"
  by (simp add: detectFrameworkSettings_def andThen_def followedBy_def Let_def)

lemma originSettings_dir:
  "truthy (dir flags) \<Longrightarrow> originSettings E devConfig flags projectDir w = (Inr s, w') \<Longrightarrow>
     command s = None \<and> noCmd s = Some (Bool True)"
  by (auto simp: originSettings_def dest: getStaticServerSettings_Inr)

lemma overrideCommand_noCmd:
  "noCmd s = Some (Bool True) \<Longrightarrow> overrideCommand E devConfig s w = (Inr s, w)"
  by (simp add: overrideCommand_def getProp_def)

lemma originSettings_no_conflict:
  \<open>fst (originSettings E devConfig flags projectDir w) \<noteq>
     Inl (Error [Lit ''"targetPort" option cannot be used in conjunction with "dir" flag which is used to run a static server.''])\<close>
proof -
  have static: \<open>fst (getStaticServerSettings E d p projectDir v) \<noteq>
     Inl (Error [Lit ''"targetPort" option cannot be used in conjunction with "dir" flag which is used to run a static server.''])\<close>
    for d p v
    using getStaticServerSettings_Inl [of E d p projectDir v] by auto
  have detect: \<open>fst (detectFrameworkSettings E projectDir w) \<noteq>
     Inl (Error [Lit ''"targetPort" option cannot be used in conjunction with "dir" flag which is used to run a static server.''])\<close>
    using detectFrameworkSettings_Inr [of E projectDir w] by auto
  show ?thesis
    using static detect
    by (simp add: originSettings_def validateCustomSettings_def followedBy_def andThen_def)
qed

lemma targetPortRules_conflict:
  \<open>targetPortRules devConfig flags s =
     Inl (Error [Lit ''"targetPort" option cannot be used in conjunction with "dir" flag which is used to run a static server.''])
   \<Longrightarrow> truthy (dir flags) \<and> truthy (getProp (command s))\<close>
  by (simp add: targetPortRules_def split: if_splits)

lemma settingsBeforeProxyPort_no_conflict:
  \<open>fst (settingsBeforeProxyPort E devConfig flags projectDir w) \<noteq>
     Inl (Error [Lit ''"targetPort" option cannot be used in conjunction with "dir" flag which is used to run a static server.''])\<close>
  (is "_ \<noteq> Inl ?conflict")
proof
  assume failed: "fst (settingsBeforeProxyPort E devConfig flags projectDir w) = Inl ?conflict"
  then have string: "typeof (cfg_framework devConfig) = ''string''"
    by (auto simp: settingsBeforeProxyPort_def split: if_splits)
  from failed string originSettings_no_conflict [of E devConfig flags projectDir w]
  obtain s1 w1 where origin: "originSettings E devConfig flags projectDir w = (Inr s1, w1)"
    and rest: \<open>fst (andThen (overrideCommand E devConfig s1) (\<lambda>s2.
        andThen (lift (targetPortRules devConfig flags
                   (s2\<lparr>dist := Some (js_or (dir flags) (js_or (cfg_publish devConfig) (getProp (dist s2))))\<rparr>))) (\<lambda>s3.
        andThen (lift (checkPortConflict devConfig s3)) (\<lambda>s4.
        andThen (staticFallback E flags projectDir s4) (\<lambda>s5.
          if \<not> truthy (getProp (frameworkPort s5)) then
            throw (Error [Lit ''No "targetPort" option specified or detected.''])
          else if truthy (cfg_port devConfig) \<and> typeof (cfg_port devConfig) \<noteq> ''number'' then
            throw (Error [Lit ''Invalid "port" option specified. The value of "port" option must be an integer''])
          else lift (checkPortConflict devConfig s5))))) w1) = Inl ?conflict\<close>
    by (auto simp: settingsBeforeProxyPort_def fst_andThen_eq_Inl)
  obtain s2 w2 where over: "overrideCommand E devConfig s1 w1 = (Inr s2, w2)"
    using overrideCommand_Inr by blast
  let ?s = "s2\<lparr>dist := Some (js_or (dir flags) (js_or (cfg_publish devConfig) (getProp (dist s2))))\<rparr>"
  have static: "fst (staticFallback E flags projectDir s4 v) \<noteq> Inl ?conflict" for s4 v
    using getStaticServerSettings_Inl [of E "getProp (dist s4)" "staticServerPort flags" projectDir
        \<open>v\<lparr>trace := trace v @ [Log [Lit (NETLIFYDEVWARN E), Lit '' No app server detected and no "command" specified'']]\<rparr>\<close>]
    by (auto simp: staticFallback_def)
  from rest over static have "targetPortRules devConfig flags ?s = Inl ?conflict"
    by (auto simp: fst_andThen_eq_Inl andThen_Inr [of "overrideCommand E devConfig s1", OF over]
        checkPortConflict_def split: if_splits sum.splits)
  from targetPortRules_conflict [OF this] have dir: "truthy (dir flags)"
    and cmd: "truthy (getProp (command s2))"
    by simp_all
  from originSettings_dir [OF dir origin] over have "s2 = s1" "command s1 = None"
    by (simp_all add: overrideCommand_noCmd)
  with cmd show False
    by (simp add: getProp_def)
qed

text \<open>
  The error of line 163 is dead code: no call, with any input and any collaborators,
  fails with it.
\<close>

lemma dir_conflict_never_reported:
  \<open>fst (serverSettings E devConfig flags projectDir w) \<noteq>
     Inl (Error [Lit ''"targetPort" option cannot be used in conjunction with "dir" flag which is used to run a static server.''])\<close>
  (is "_ \<noteq> Inl ?conflict")
proof -
  have acquire: "fst (acquireProxyPort E devConfig s v) \<noteq> Inl ?conflict" for s v
    by (simp add: acquireProxyPort_def Let_def andThen_def)
  have assign: "fst (assignDefaults E devConfig s v) \<noteq> Inl ?conflict" for s v
    by (simp add: assignDefaults_def Let_def andThen_def)
  have attach: "fst (attachHttps E devConfig s v) \<noteq> Inl ?conflict" for s v
    by (simp add: attachHttps_def readHttpsSettings_def Let_def andThen_def split: option.splits)
  show ?thesis
    using settingsBeforeProxyPort_no_conflict [of E devConfig flags projectDir w] acquire assign attach
    by (simp add: serverSettings_def settingsBeforeHttps_def fst_andThen_eq_Inl)
qed


text \<open>
  C4. With \<^verbatim>\<open>targetPort\<close> supplied together with the \<^verbatim>\<open>dir\<close> flag, the call does
  fail, but with the error of line 159 that no command was specified or detected, not
  with the error of line 163 that names the conflict: the settings of the static server
  never have a command, and line 159 is tested first.
\<close>

theorem targetPort_with_dir_reports_missing_command:
  \<open>fst (serverSettings E (emptyConfig\<lparr>cfg_targetPort := Num 3000\<rparr>)
          (noFlags\<lparr>dir := Str ''./public''\<rparr>) projectDir w) =
    Inl (Error [Lit ''No "command" specified or detected. The "command" option is required to use "targetPort" option.''])\<close>
  by (simp add: blocks emptyConfig_def noFlags_def)


text \<open>
  C5, as stated, fails twice. The test of line 149 is \<^verbatim>\<open>typeof ... !== 'number'\<close>, so
  the number \<^verbatim>\<open>3000.5\<close> passes it and becomes \<^verbatim>\<open>frameworkPort\<close>; and a value that is
  not a number, here the string \<^verbatim>\<open>"3000"\<close>, is refused with \<^verbatim>\<open>new Error\<close>, not with
  a \<^verbatim>\<open>TypeError\<close>.
\<close>

theorem fractional_targetPort_accepted:
  \<open>fst (serverSettings site (customConfig\<lparr>cfg_targetPort := Num (6001 / 2)\<rparr>)
          noFlags ''/home/user/site'' start)
     = Inr \<lparr>command = Some (Str ''npm start''), frameworkPort = Some (Num (6001 / 2)),
            dist = Some Undefined, framework = Some (Str ''#custom''), env = None, noCmd = None,
            port = Some (Num 8888), jwtSecret = Some (Str ''secret''),
            jwtRolePath = Some (Str ''app_metadata.authorization.roles''),
            functions = Some Undefined, functionsPort = None, https = None\<rparr>
   \<and> fst (serverSettings site (customConfig\<lparr>cfg_targetPort := Str ''3000''\<rparr>)
          noFlags ''/home/user/site'' start)
     = Inl (Error [Lit ''Invalid "targetPort" option specified. The value of "targetPort" option must be an integer''])\<close>
  by (simp add: blocks doubles)

text \<open>
  C5, amended. When the run reaches line 148 (line 108 passed and the branch of lines
  112 to 135 returned) with a \<^verbatim>\<open>targetPort\<close> that is truthy and not of type number,
  the call fails with the \<^verbatim>\<open>Error\<close> of line 150 that says it must be an integer.
\<close>

theorem non_number_targetPort_rejected:
  assumes "typeof (cfg_framework devConfig) = ''string''"
    and origin: "originSettings E devConfig flags projectDir w = (Inr s, w1)"
    and "truthy (cfg_targetPort devConfig)"
    and "typeof (cfg_targetPort devConfig) \<noteq> ''number''"
  shows \<open>fst (serverSettings E devConfig flags projectDir w) =
    Inl (Error [Lit ''Invalid "targetPort" option specified. The value of "targetPort" option must be an integer''])\<close>
proof -
  obtain s' w' where over: "overrideCommand E devConfig s w1 = (Inr s', w')"
    using overrideCommand_Inr by blast
  have \<open>settingsBeforeProxyPort E devConfig flags projectDir w =
     (Inl (Error [Lit ''Invalid "targetPort" option specified. The value of "targetPort" option must be an integer'']), w')\<close>
    using assms(1,3,4)
    by (simp add: settingsBeforeProxyPort_def targetPortRules_def
        andThen_Inr [of "originSettings E devConfig flags projectDir", OF origin]
        andThen_Inr [of "overrideCommand E devConfig s", OF over])
  then show ?thesis
    by (simp add: serverSettings_def settingsBeforeHttps_def andThen_def)
qed

theorem non_number_targetPort_rejected_witness:
  \<open>typeof (cfg_framework (customConfig\<lparr>cfg_targetPort := Bool True\<rparr>)) = ''string''
   \<and> originSettings site (customConfig\<lparr>cfg_targetPort := Bool True\<rparr>) noFlags ''/home/user/site'' start
       = (Inr (emptySettings\<lparr>framework := Some (Str ''#custom'')\<rparr>), start)
   \<and> truthy (cfg_targetPort (customConfig\<lparr>cfg_targetPort := Bool True\<rparr>))
   \<and> typeof (cfg_targetPort (customConfig\<lparr>cfg_targetPort := Bool True\<rparr>)) \<noteq> ''number''
   \<and> fst (serverSettings site (customConfig\<lparr>cfg_targetPort := Bool True\<rparr>) noFlags ''/home/user/site'' start)
       = Inl (Error [Lit ''Invalid "targetPort" option specified. The value of "targetPort" option must be an integer''])\<close>
proof -
  have string: "typeof (cfg_framework (customConfig\<lparr>cfg_targetPort := Bool True\<rparr>)) = ''string''"
    by (simp add: doubles)
  have origin: "originSettings site (customConfig\<lparr>cfg_targetPort := Bool True\<rparr>) noFlags
      ''/home/user/site'' start = (Inr (emptySettings\<lparr>framework := Some (Str ''#custom'')\<rparr>), start)"
    by (simp add: originSettings_def validateCustomSettings_def followedBy_def doubles)
  have supplied: "truthy (cfg_targetPort (customConfig\<lparr>cfg_targetPort := Bool True\<rparr>))"
    by (simp add: doubles)
  have other: "typeof (cfg_targetPort (customConfig\<lparr>cfg_targetPort := Bool True\<rparr>)) \<noteq> ''number''"
    by (simp add: doubles)
  from non_number_targetPort_rejected [OF string origin supplied other] string origin supplied other
  show ?thesis by simp
qed

section \<open>The prompt\<close>

lemma getSettingsFromFramework_spread:
  "getSettingsFromFramework (spread fw cmd) = getSettingsFromFramework fw"
  by (simp add: getSettingsFromFramework_def spread_def)

lemma formatSettingsArrForInquirer_items:
  "formatSettingsArrForInquirer E fws = concat (map (\<lambda>fw. map (promptItem E fw) (watch_commands fw)) fws)"
  by (simp add: formatSettingsArrForInquirer_def promptItem_def [abs_def])

lemma length_formatSettingsArrForInquirer:
  "length (formatSettingsArrForInquirer E fws) = sum_list (map (\<lambda>fw. length (watch_commands fw)) fws)"
  by (simp add: formatSettingsArrForInquirer_def length_concat comp_def)

lemma detectFrameworkSettings_prompt:
  assumes "listFrameworks E projectDir (ext w) = (fws, x1)"
    and "1 < length fws"
    and "prompt E (source E (formatSettingsArrForInquirer E fws)) x1 = (chosen, x2)"
  shows \<open>detectFrameworkSettings E projectDir w =
    (Inr (getSettingsFromFramework chosen),
     \<lparr>trace = trace w @ [ListFrameworks projectDir, Prompt (formatSettingsArrForInquirer E fws),
        Log [Lit ''Add `framework = "'', Sub (Str (fw_name chosen)),
             Lit ''"` to [dev] section of your netlify.toml to avoid this selection prompt next time'']],
      ext = x2\<rparr>)\<close>
  using assms by (simp add: detectFrameworkSettings_def Let_def andThen_def followedBy_def)

text \<open>
  What holds of the prompt when the detector returns more than one framework: it is
  shown exactly once; the callback it is given offers, while nothing is typed, one
  \<open>promptItem\<close> for each watch command of each framework, as many as there are watch
  commands; and the settings are derived from the value the prompt returns.
\<close>

lemma prompt_shown_once:
  assumes "listFrameworks E projectDir (ext w) = (fws, x1)"
    and "1 < length fws"
    and "prompt E (source E (formatSettingsArrForInquirer E fws)) x1 = (chosen, x2)"
  shows "fst (detectFrameworkSettings E projectDir w) = Inr (getSettingsFromFramework chosen)
     \<and> promptCount (trace (snd (detectFrameworkSettings E projectDir w))) = promptCount (trace w) + 1
     \<and> source E (formatSettingsArrForInquirer E fws) Undefined
          = concat (map (\<lambda>fw. map (promptItem E fw) (watch_commands fw)) fws)
     \<and> Prompt (concat (map (\<lambda>fw. map (promptItem E fw) (watch_commands fw)) fws))
          \<in> set (trace (snd (detectFrameworkSettings E projectDir w)))
     \<and> length (concat (map (\<lambda>fw. map (promptItem E fw) (watch_commands fw)) fws))
          = sum_list (map (\<lambda>fw. length (watch_commands fw)) fws)"
  using length_formatSettingsArrForInquirer [of E fws]
  by (simp add: detectFrameworkSettings_prompt [OF assms] promptCount_def source_def
      formatSettingsArrForInquirer_items)

lemma prompt_shown_once_site:
  "fst (detectFrameworkSettings site ''/home/user/site'' start)
       = Inr (getSettingsFromFramework (spread gatsby [''run'', ''start'']))
   \<and> promptCount (trace (snd (detectFrameworkSettings site ''/home/user/site'' start))) = 1
   \<and> length (concat (map (\<lambda>fw. map (promptItem site fw) (watch_commands fw)) [gatsby, hugo])) = 3"
proof -
  have listed: "listFrameworks site ''/home/user/site'' (ext start) = ([gatsby, hugo], 1)"
    by (simp add: site_def stub_def start_def)
  have many: "1 < length [gatsby, hugo]"
    by simp
  have picked: "prompt site (source site (formatSettingsArrForInquirer site [gatsby, hugo])) 1
       = (spread gatsby [''run'', ''start''], 2)"
    by (simp add: site_def stub_def source_def formatSettingsArrForInquirer_def gatsby_def hugo_def)
  from prompt_shown_once [OF listed many picked]
  show ?thesis
    by (simp add: promptCount_def start_def gatsby_def hugo_def)
qed

text \<open>
  C6. The label of an item is to read \<^verbatim>\<open>[frameworkName] primaryCommand watchArgs...\<close>
  with the framework's primary dev command. Line 247 prints \<^verbatim>\<open>framework.command\<close>
  instead, a property the descriptor does not have: \<^verbatim>\<open>getSettingsFromFramework\<close> takes the
  command from \<^verbatim>\<open>dev.commands\<close>. For the descriptor \<open>gatsby\<close>, whose dev command is
  \<^verbatim>\<open>gatsby develop\<close>, the items the prompt is given are labelled
  \<^verbatim>\<open>[gatsby] undefined run develop\<close> and \<^verbatim>\<open>[gatsby] undefined run start\<close>.
\<close>

theorem label_prints_command_property:
  "map choice_name (formatSettingsArrForInquirer site [gatsby, hugo])
     = [''[gatsby] undefined run develop'', ''[gatsby] undefined run start'', ''[hugo] hugo server -w'']
   \<and> fw_command gatsby = None
   \<and> dev_commands gatsby = [''gatsby develop'']
   \<and> dev_commands hugo = [''hugo server -w'']"
  by (simp add: formatSettingsArrForInquirer_def doubles)

text \<open>
  C10. Whichever watch command of a framework the user picks in the prompt, the settings
  are those of the framework's descriptor: \<^verbatim>\<open>command\<close> is the first entry of
  \<^verbatim>\<open>dev.commands\<close>, and \<^verbatim>\<open>frameworkPort\<close>, \<^verbatim>\<open>dist\<close>, \<^verbatim>\<open>framework\<close> and \<^verbatim>\<open>env\<close> are the
  descriptor's. The picked watch command is kept in the \<^verbatim>\<open>commands\<close> property of the
  item's value, which nothing reads.
\<close>

theorem picked_watch_command_has_no_effect:
  assumes "listFrameworks E projectDir (ext w) = (fws, x1)"
    and "1 < length fws"
    and "fw \<in> set fws" and "cmd \<in> set (watch_commands fw)"
    and "prompt E (source E (formatSettingsArrForInquirer E fws)) x1 = (choice_value (promptItem E fw cmd), x2)"
  shows "promptItem E fw cmd \<in> set (formatSettingsArrForInquirer E fws)
     \<and> fst (detectFrameworkSettings E projectDir w) =
         Inr (emptySettings\<lparr>
           command := Some (case dev_commands fw of [] \<Rightarrow> Undefined | c # _ \<Rightarrow> Str c),
           frameworkPort := Some (dev_port fw),
           dist := Some (js_or (staticAssetsDirectory fw) (build_directory fw)),
           framework := Some (Str (fw_name fw)),
           env := Some (fw_env fw)\<rparr>)"
proof -
  have "promptItem E fw cmd \<in> set (formatSettingsArrForInquirer E fws)"
    using assms(3,4) by (auto simp: formatSettingsArrForInquirer_items)
  moreover have "getSettingsFromFramework (choice_value (promptItem E fw cmd)) = getSettingsFromFramework fw"
    by (simp add: promptItem_def getSettingsFromFramework_spread)
  ultimately show ?thesis
    by (simp add: detectFrameworkSettings_prompt [OF assms(1,2,5)])
      (simp add: getSettingsFromFramework_def)
qed

theorem picked_watch_command_has_no_effect_witness:
  "gatsby \<in> set [gatsby, hugo]
   \<and> [''run'', ''start''] \<in> set (watch_commands gatsby)
   \<and> prompt site (source site (formatSettingsArrForInquirer site [gatsby, hugo])) 1
       = (choice_value (promptItem site gatsby [''run'', ''start'']), 2)
   \<and> fst (detectFrameworkSettings site ''/home/user/site'' start)
       = Inr \<lparr>command = Some (Str ''gatsby develop''), frameworkPort = Some (Num 8000),
              dist = Some (Str ''public''), framework = Some (Str ''gatsby''),
              env = Some (Obj [(''GATSBY_LOGGER'', Str ''yurnalist'')]), noCmd = None,
              port = None, jwtSecret = None, jwtRolePath = None, functions = None,
              functionsPort = None, https = None\<rparr>"
proof -
  have listed: "listFrameworks site ''/home/user/site'' (ext start) = ([gatsby, hugo], 1)"
    by (simp add: site_def stub_def start_def)
  have many: "1 < length [gatsby, hugo]"
    by simp
  have detected: "gatsby \<in> set [gatsby, hugo]"
    by simp
  have watched: "[''run'', ''start''] \<in> set (watch_commands gatsby)"
    by (simp add: gatsby_def)
  have picked: "prompt site (source site (formatSettingsArrForInquirer site [gatsby, hugo])) 1
       = (choice_value (promptItem site gatsby [''run'', ''start'']), 2)"
    by (simp add: site_def stub_def source_def formatSettingsArrForInquirer_def promptItem_def
        gatsby_def hugo_def)
  from picked_watch_command_has_no_effect [OF listed many detected watched picked]
    detected watched picked
  show ?thesis
    by (simp add: emptySettings_def js_or_def gatsby_def)
qed

section \<open>The static directory\<close>

text \<open>
  C7. With \<^verbatim>\<open>flags.dir = "./public"\<close> and nothing configured but the framework
  string, and a prober that answers a positive port for 3999: the settings have
  \<^verbatim>\<open>noCmd\<close> true, \<^verbatim>\<open>dist\<close> \<^verbatim>\<open>"./public"\<close>, \<^verbatim>\<open>frameworkPort\<close> the prober's answer for
  3999, \<^verbatim>\<open>port\<close> its answer for 8888, and no \<^verbatim>\<open>command\<close> property.
\<close>

theorem static_dir_settings:
  assumes "0 < fst (getPort E (Num 3999) (ext w))"
  shows "fst (serverSettings E (emptyConfig\<lparr>cfg_framework := Str f\<rparr>)
         (noFlags\<lparr>dir := Str ''./public''\<rparr>) projectDir w) =
   Inr \<lparr>command = None,
        frameworkPort = Some (Num (of_nat (fst (getPort E (Num 3999) (ext w))))),
        dist = Some (Str ''./public''), framework = None, env = None,
        noCmd = Some (Bool True),
        port = Some (Num (of_nat (fst (getPort E (Num 8888) (snd (getPort E (Num 3999) (ext w))))))),
        jwtSecret = Some (Str ''secret''),
        jwtRolePath = Some (Str ''app_metadata.authorization.roles''),
        functions = Some Undefined, functionsPort = None, https = None\<rparr>"
  using assms by (simp add: blocks emptyConfig_def noFlags_def)

theorem static_dir_settings_witness:
  "0 < fst (getPort site (Num 3999) (ext start))
   \<and> fst (serverSettings site (emptyConfig\<lparr>cfg_framework := Str ''#auto''\<rparr>)
         (noFlags\<lparr>dir := Str ''./public''\<rparr>) ''/home/user/site'' start) =
     Inr \<lparr>command = None, frameworkPort = Some (Num 3999),
        dist = Some (Str ''./public''), framework = None, env = None,
        noCmd = Some (Bool True), port = Some (Num 8888),
        jwtSecret = Some (Str ''secret''),
        jwtRolePath = Some (Str ''app_metadata.authorization.roles''),
        functions = Some Undefined, functionsPort = None, https = None\<rparr>"
proof -
  have free: "0 < fst (getPort site (Num 3999) (ext start))"
    by (simp add: site_def stub_def preferredPort_positive)
  from static_dir_settings [OF free, of "''#auto''" "''/home/user/site''"] free
  show ?thesis
    by (simp add: site_def stub_def start_def preferredPort_def)
qed

section \<open>The key and the certificate\<close>

text \<open>
  C8. When the run reaches line 204 with an \<^verbatim>\<open>https\<close> object naming a key file and a
  certificate file, and the reader returns the key but fails on the certificate, the
  call fails with \<^verbatim>\<open>Error reading certificate file:\<close> and the reader's message; the
  result is that error and no settings.
\<close>

theorem certificate_read_failure:
  assumes before: "settingsBeforeHttps E devConfig flags projectDir w = (Inr s, w1)"
    and https: "isPlainObject (cfg_https devConfig)"
      "field ''keyFile'' (cfg_https devConfig) = Str keyFile"
      "field ''certFile'' (cfg_https devConfig) = Str certFile"
    and key: "readFileAsyncCatchError E (Str keyFile) (ext w1) = (keyResult, x1)"
      "error keyResult = None"
    and cert: "readFileAsyncCatchError E (Str certFile) x1 = (certResult, x2)"
      "error certResult = Some certMessage"
  shows "fst (serverSettings E devConfig flags projectDir w) =
    Inl (Error [Lit ''Error reading certificate file: '', Sub (Str certMessage)])"
proof -
  from https(1) have truthy: "truthy (cfg_https devConfig)"
    by (cases "cfg_https devConfig") (simp_all add: isPlainObject_def)
  show ?thesis
    using https key cert truthy
    by (simp add: serverSettings_def attachHttps_def readHttpsSettings_def
        andThen_Inr [of "settingsBeforeHttps E devConfig flags projectDir", OF before])
       (simp add: andThen_def Let_def)
qed

theorem certificate_read_failure_witness:
  "isPlainObject (Obj [(''keyFile'', Str ''k.pem''), (''certFile'', Str ''c.pem'')])
   \<and> error (fst (readFileAsyncCatchError site (Str ''k.pem'') 1)) = None
   \<and> error (fst (readFileAsyncCatchError site (Str ''c.pem'') 2)) = Some ''ENOENT: no such file or directory''
   \<and> fst (serverSettings site
        (customConfig\<lparr>cfg_https := Obj [(''keyFile'', Str ''k.pem''), (''certFile'', Str ''c.pem'')]\<rparr>)
        noFlags ''/home/user/site'' start)
       = Inl (Error [Lit ''Error reading certificate file: '', Sub (Str ''ENOENT: no such file or directory'')])"
proof -
  let ?devConfig = "customConfig\<lparr>cfg_https := Obj [(''keyFile'', Str ''k.pem''), (''certFile'', Str ''c.pem'')]\<rparr>"
  let ?s = "\<lparr>command = Some (Str ''npm start''), frameworkPort = Some (Num 3000),
              dist = Some Undefined, framework = Some (Str ''#custom''), env = None, noCmd = None,
              port = Some (Num 8888), jwtSecret = Some (Str ''secret''),
              jwtRolePath = Some (Str ''app_metadata.authorization.roles''),
              functions = Some Undefined, functionsPort = None, https = None\<rparr>"
  let ?w = "\<lparr>trace = [Log [Lit ''log'', Lit '' Overriding '', Lit ''command'',
              Lit '' with setting derived from netlify.toml [dev] block: '', Sub (Str ''npm start'')],
              GetPort (Num 8888)],
            ext = 1::nat\<rparr>"
  have before: "settingsBeforeHttps site ?devConfig noFlags ''/home/user/site'' start = (Inr ?s, ?w)"
    by (simp add: blocks doubles)
  have object: "isPlainObject (cfg_https ?devConfig)"
    and keyFile: "field ''keyFile'' (cfg_https ?devConfig) = Str ''k.pem''"
    and certFile: "field ''certFile'' (cfg_https ?devConfig) = Str ''c.pem''"
    by (simp_all add: isPlainObject_def field_def getProp_def doubles)
  have key: "readFileAsyncCatchError site (Str ''k.pem'') (ext ?w)
      = (\<lparr>content = Str ''-----BEGIN-----'', error = None\<rparr>, 2)"
    and keyRead: "error \<lparr>content = Str ''-----BEGIN-----'', error = None\<rparr> = None"
    and cert: "readFileAsyncCatchError site (Str ''c.pem'') 2
      = (\<lparr>content = Undefined, error = Some ''ENOENT: no such file or directory''\<rparr>, 3)"
    and certFailed: "error \<lparr>content = Undefined, error = Some ''ENOENT: no such file or directory''\<rparr>
      = Some ''ENOENT: no such file or directory''"
    by (simp_all add: site_def stub_def)
  from certificate_read_failure [OF before object keyFile certFile key keyRead cert certFailed]
  show ?thesis
    by (simp add: isPlainObject_def site_def stub_def)
qed

section \<open>Determinism\<close>

lemma stateless_ret: "stateless (ret a)"
  by (simp add: stateless_def)

lemma stateless_throw: "stateless (throw e)"
  by (simp add: stateless_def)

lemma stateless_lift: "stateless (lift r)"
  by (simp add: stateless_def)

lemma stateless_log: "stateless (log msg)"
  by (simp add: stateless_def)

lemma stateless_call: "(\<And>x y. fst (c x) = fst (c y)) \<Longrightarrow> stateless (call ev c)"
  by (simp add: stateless_def)

lemma stateless_ask: "(\<And>x y. g x = g y) \<Longrightarrow> stateless (ask g)"
  by (simp add: stateless_def)

lemma stateless_andThen:
  assumes m: "stateless m" and f: "\<And>a. stateless (f a)"
  shows "stateless (andThen m f)"
  unfolding stateless_def
proof (intro allI)
  fix w1 w2
  obtain r1 v1 r2 v2 where m1: "m w1 = (r1, v1)" and m2: "m w2 = (r2, v2)"
    by (metis surj_pair)
  with m have same: "r1 = r2"
    by (metis fst_conv stateless_def)
  show "fst (andThen m f w1) = fst (andThen m f w2)"
  proof (cases r1)
    case (Inl e)
    with same m1 m2 show ?thesis
      by (auto simp: andThen_def)
  next
    case (Inr a)
    with same m1 m2 f [of a] show ?thesis
      by (auto simp: andThen_def stateless_def)
  qed
qed

lemma stateless_followedBy: "stateless m \<Longrightarrow> stateless k \<Longrightarrow> stateless (followedBy m k)"
  by (simp add: followedBy_def stateless_andThen)

lemma stateless_collaborators:
  assumes "deterministic E"
  shows "stateless (call ev1 (listFrameworks E d))"
    and "stateless (call ev2 (hasFramework E f d))"
    and "stateless (call ev3 (getFramework E f d))"
    and "stateless (call ev4 (prompt E src))"
    and "stateless (call ev5 (getPort E p))"
    and "stateless (call ev6 (readFileAsyncCatchError E file))"
    and "stateless (ask (cwd E))"
proof -
  have "fst (listFrameworks E d x) = fst (listFrameworks E d y)" for x y
    using assms unfolding deterministic_def by metis
  then show "stateless (call ev1 (listFrameworks E d))" by (rule stateless_call)
  have "fst (hasFramework E f d x) = fst (hasFramework E f d y)" for x y
    using assms unfolding deterministic_def by metis
  then show "stateless (call ev2 (hasFramework E f d))" by (rule stateless_call)
  have "fst (getFramework E f d x) = fst (getFramework E f d y)" for x y
    using assms unfolding deterministic_def by metis
  then show "stateless (call ev3 (getFramework E f d))" by (rule stateless_call)
  have "fst (prompt E src x) = fst (prompt E src y)" for x y
    using assms unfolding deterministic_def by metis
  then show "stateless (call ev4 (prompt E src))" by (rule stateless_call)
  have "fst (getPort E p x) = fst (getPort E p y)" for x y
    using assms unfolding deterministic_def by metis
  then show "stateless (call ev5 (getPort E p))" by (rule stateless_call)
  have "fst (readFileAsyncCatchError E file x) = fst (readFileAsyncCatchError E file y)" for x y
    using assms unfolding deterministic_def by metis
  then show "stateless (call ev6 (readFileAsyncCatchError E file))" by (rule stateless_call)
  have "cwd E x = cwd E y" for x y
    using assms unfolding deterministic_def by metis
  then show "stateless (ask (cwd E))" by (rule stateless_ask)
qed

lemmas stateless_intros = stateless_ret stateless_throw stateless_lift stateless_log
  stateless_andThen stateless_followedBy stateless_collaborators

lemma stateless_readHttpsSettings: "deterministic E \<Longrightarrow> stateless (readHttpsSettings E options)"
  unfolding readHttpsSettings_def Let_def
  by (auto intro!: stateless_intros split: option.splits)

lemma stateless_getStaticServerSettings:
  "deterministic E \<Longrightarrow> stateless (getStaticServerSettings E d p projectDir)"
  unfolding getStaticServerSettings_def
  by (auto intro!: stateless_intros split: jsval.splits)

lemma stateless_detectFrameworkSettings:
  "deterministic E \<Longrightarrow> stateless (detectFrameworkSettings E projectDir)"
  unfolding detectFrameworkSettings_def Let_def
  by (auto intro!: stateless_intros)

lemma stateless_originSettings:
  "deterministic E \<Longrightarrow> stateless (originSettings E devConfig flags projectDir)"
  unfolding originSettings_def
  by (auto intro!: stateless_intros stateless_getStaticServerSettings
      stateless_detectFrameworkSettings)

lemma stateless_settingsBeforeProxyPort:
  "deterministic E \<Longrightarrow> stateless (settingsBeforeProxyPort E devConfig flags projectDir)"
  unfolding settingsBeforeProxyPort_def overrideCommand_def staticFallback_def
  by (auto intro!: stateless_intros stateless_getStaticServerSettings stateless_originSettings)

lemma stateless_settingsBeforeHttps:
  "deterministic E \<Longrightarrow> stateless (settingsBeforeHttps E devConfig flags projectDir)"
  unfolding settingsBeforeHttps_def acquireProxyPort_def assignDefaults_def Let_def
  by (auto intro!: stateless_intros stateless_settingsBeforeProxyPort)

lemma stateless_serverSettings:
  "deterministic E \<Longrightarrow> stateless (serverSettings E devConfig flags projectDir)"
  unfolding serverSettings_def attachHttps_def
  by (auto intro!: stateless_intros stateless_settingsBeforeHttps stateless_readHttpsSettings)

lemma deterministic_stub: "deterministic (stub fws pick prober unreadable)"
  by (simp add: deterministic_def stub_def)

text \<open>
  C9. With collaborators whose answers depend on their arguments only (the detector, the
  prompt, the prober, the file reader and the working directory), two calls with the
  same \<^verbatim>\<open>devConfig\<close>, \<^verbatim>\<open>flags\<close> and \<^verbatim>\<open>projectDir\<close> give the same result, the same
  settings or the same error, whatever happened before each call.
\<close>

theorem serverSettings_deterministic:
  assumes "deterministic E"
  shows "fst (serverSettings E devConfig flags projectDir w1) = fst (serverSettings E devConfig flags projectDir w2)"
  using stateless_serverSettings [OF assms, of devConfig flags projectDir]
  by (simp add: stateless_def)

theorem serverSettings_deterministic_witness:
  "deterministic site
   \<and> fst (serverSettings site emptyConfig noFlags ''/home/user/site'' start)
     = fst (serverSettings site emptyConfig noFlags ''/home/user/site''
             \<lparr>trace = [GetPort (Num 8888)], ext = 7\<rparr>)
   \<and> fst (serverSettings site emptyConfig noFlags ''/home/user/site'' start)
     = Inr \<lparr>command = Some (Str ''gatsby develop''), frameworkPort = Some (Num 8000),
            dist = Some (Str ''public''), framework = Some (Str ''gatsby''),
            env = Some (Obj [(''GATSBY_LOGGER'', Str ''yurnalist'')]), noCmd = None,
            port = Some (Num 8888), jwtSecret = Some (Str ''secret''),
            jwtRolePath = Some (Str ''app_metadata.authorization.roles''),
            functions = Some Undefined, functionsPort = None, https = None\<rparr>"
proof -
  have det: "deterministic site"
    unfolding site_def by (rule deterministic_stub)
  have run: "fst (serverSettings site emptyConfig noFlags ''/home/user/site'' start)
     = Inr \<lparr>command = Some (Str ''gatsby develop''), frameworkPort = Some (Num 8000),
            dist = Some (Str ''public''), framework = Some (Str ''gatsby''),
            env = Some (Obj [(''GATSBY_LOGGER'', Str ''yurnalist'')]), noCmd = None,
            port = Some (Num 8888), jwtSecret = Some (Str ''secret''),
            jwtRolePath = Some (Str ''app_metadata.authorization.roles''),
            functions = Some Undefined, functionsPort = None, https = None\<rparr>"
    by (simp add: blocks formatSettingsArrForInquirer_def source_def spread_def doubles)
  from serverSettings_deterministic [OF det, of emptyConfig noFlags "''/home/user/site''" start
      "\<lparr>trace = [GetPort (Num 8888)], ext = 7\<rparr>"] det run
  show ?thesis by simp
qed

end
